theory Spec2Isabelle
  imports Main
begin

section \<open>Python values, exceptions and the data of the conversation protocol\<close>

text \<open>
  The generator is Python: its arguments are dynamically typed, it tests them for
  truthiness, it raises exceptions and it mutates the caller's message objects.
  The embedding keeps each of these visible. Python values that the generator
  only passes around (inference configuration, tool configuration, system prompt,
  transport responses) are values of \<open>pyval\<close>; a \<open>dict\<close> is an association list.
\<close>

datatype pyval =
    PNone
  | PBool bool
  | PInt int
  | PStr string
  | PList "pyval list"
  | PDict "(string \<times> pyval) list"
  | PObj string "(string \<times> pyval) list"

type_synonym pydict = "(string \<times> pyval) list"

text \<open>Truth value testing of Python: \<open>None\<close>, \<open>False\<close>, zero and empty containers are
  false; an instance of a class without \<open>__bool__\<close> or \<open>__len__\<close> is true.\<close>

fun truthy :: "pyval \<Rightarrow> bool" where
  "truthy PNone = False"
| "truthy (PBool b) = b"
| "truthy (PInt i) = (i \<noteq> 0)"
| "truthy (PStr s) = (s \<noteq> [])"
| "truthy (PList xs) = (xs \<noteq> [])"
| "truthy (PDict kvs) = (kvs \<noteq> [])"
| "truthy (PObj cls attrs) = True"

text \<open>\<open>a or b\<close> of Python.\<close>

definition py_or :: "pyval \<Rightarrow> pyval \<Rightarrow> pyval" where
  "py_or a b = (if truthy a then a else b)"

text \<open>\<open>d.get(k)\<close>: the value stored under the key, \<open>None\<close> when the key is missing.\<close>

definition dict_get :: "pydict \<Rightarrow> string \<Rightarrow> pyval" where
  "dict_get d k = (case map_of d k of None \<Rightarrow> PNone | Some v \<Rightarrow> v)"

text \<open>
  The exceptions that the generator raises or lets through. The two Bedrock errors are
  raised with \<open>raise ... from exception\<close>: they carry their cause.
  \<open>ClientError\<close> is botocore's exception of a failed service call; \<open>OtherError\<close>
  stands for any exception of another class.
\<close>

datatype exn =
    ValueError string
  | KeyError string
  | AttributeError string
  | ClientError string
  | OtherError string
  | AmazonBedrockInferenceError string exn
  | AmazonBedrockConfigurationError string exn

text \<open>
  Modelled from the spec: the enumeration \<open>ModelCapability\<close> of the module
  \<open>capabilities\<close>, with the seven members the specification lists.
\<close>

datatype ModelCapability =
    SYSTEM_PROMPTS
  | VISION
  | DOCUMENT_CHAT
  | TOOL_USE
  | STREAMING_TOOL_USE
  | CONVERSE_STREAM
  | GUARDRAILS

text \<open>
  Modelled from the spec: the message types of the module \<open>utils\<close>. A message has a
  role and a content object whose \<open>content\<close> attribute is the list of content blocks
  (the source reads and assigns \<open>msg.content.content\<close>); a block is a variant over text,
  image, document, tool use and tool result.
\<close>

datatype ContentItem =
    TextBlock string
  | ImageBlock pyval
  | DocumentBlock pyval
  | ToolUseBlock pyval
  | ToolResultBlock pyval

datatype ConverseRole = USER | ASSISTANT | SYSTEM

record ContentBlock =
  content :: "ContentItem list"

record ConverseMessage =
  role :: ConverseRole
  content :: ContentBlock

text \<open>\<open>isinstance(item, ImageBlock)\<close>.\<close>

fun isinstance_ImageBlock :: "ContentItem \<Rightarrow> bool" where
  "isinstance_ImageBlock (ImageBlock src) = True"
| "isinstance_ImageBlock other = False"

text \<open>
  The \<open>messages\<close> argument of \<open>run\<close> as Python sees it: any object, which may or may
  not be a list, whose elements may or may not be \<open>ConverseMessage\<close> instances.
\<close>

datatype pyobj = Msg ConverseMessage | NotMsg pyval

datatype messages_arg = PyList "pyobj list" | NotList pyval

fun isinstance_ConverseMessage :: "pyobj \<Rightarrow> bool" where
  "isinstance_ConverseMessage (Msg m) = True"
| "isinstance_ConverseMessage (NotMsg v) = False"

text \<open>A streaming callback is a named function, known by its qualified name.\<close>

datatype callback = Callback string

text \<open>
  The secrets of \<open>haystack.utils.auth\<close>: a reference to environment variables, or a
  token held in memory.
\<close>

datatype Secret = EnvVarSecret "string list" bool | TokenSecret string

section \<open>The generator\<close>

text \<open>
  The client of the transport, as the generator uses it: two operations that take the
  request keywords and return a response mapping or raise.
\<close>

record Client =
  converse :: "pydict \<Rightarrow> exn + pydict"
  converse_stream :: "pydict \<Rightarrow> exn + pydict"

text \<open>The parameters of the constructor, which the instance stores as attributes.\<close>

record InitParameters =
  model :: string
  aws_access_key_id :: "Secret option"
  aws_secret_access_key :: "Secret option"
  aws_session_token :: "Secret option"
  aws_region_name :: "Secret option"
  aws_profile_name :: "Secret option"
  inference_config :: pyval
  tool_config :: pyval
  streaming_callback :: "callback option"
  system_prompt :: pyval

record Generator = InitParameters +
  client :: Client
  model_capabilities :: "ModelCapability set"

text \<open>
  What the generator imports and does not define: the codec of messages and the
  consumer of the event stream (module \<open>utils\<close>). The codec's \<open>to_dict\<close> is total, as
  the specification gives it; parsing and stream consumption may raise. The consumer
  receives the callback and calls it on the chunks; it returns the accumulated message
  and the metadata mapping.
\<close>

record Utils =
  message_to_dict :: "ConverseMessage \<Rightarrow> pyval"
  message_from_dict :: "pyval \<Rightarrow> exn + ConverseMessage"
  get_stream_message :: "pyval \<Rightarrow> callback \<Rightarrow> exn + (ConverseMessage \<times> pydict)"

text \<open>The output of \<open>run\<close>.\<close>

record Result =
  message :: ConverseMessage
  usage :: pyval
  metrics :: pyval
  guardrail_trace :: pyval
  stop_reason :: pyval

text \<open>
  What \<open>run\<close> does besides returning: the caller's \<open>messages\<close> object after the call
  (the source rewrites each message's content list in place), the warnings logged, in
  order, and the operations of the transport invoked, in order, each with its request.
\<close>

datatype transport_call = Converse (request: pydict) | ConverseStream (request: pydict)

record Effects =
  messages_after :: messages_arg
  warnings :: "string list"
  calls :: "transport_call list"

subsection \<open>The log messages\<close>

definition invalid_input_msg :: "string \<Rightarrow> string" where
  "invalid_input_msg m =
     ''The model '' @ m @ '' requires a list of ConverseMessage objects as input.''"

definition system_prompt_warning :: "string \<Rightarrow> string" where
  "system_prompt_warning m =
     ''The model '' @ m @
     '' does not support system prompts. The provided system_prompt will be ignored.''"

definition vision_warning :: "string \<Rightarrow> string" where
  "vision_warning m =
     ''The model '' @ m @ '' does not support vision. Image content has been removed.''"

definition document_chat_warning :: "string \<Rightarrow> string" where
  "document_chat_warning m =
     ''The model '' @ m @
     '' does not support document chat. This feature will not be available.''"

definition tools_warning :: "string \<Rightarrow> string" where
  "tools_warning m =
     ''The model '' @ m @
     '' does not support tools. The provided tool_config will be ignored.''"

definition streaming_tool_use_warning :: "string \<Rightarrow> string" where
  "streaming_tool_use_warning m =
     ''The model '' @ m @
     '' does not support streaming tool use. Streaming will be disabled for tool calls.''"

definition inference_error_msg :: "string \<Rightarrow> string \<Rightarrow> string" where
  "inference_error_msg m e =
     ''Could not run inference on Amazon Bedrock model '' @ m @ '' due to: '' @ e"

subsection \<open>Validation and filtering\<close>

text \<open>The test of lines 166 to 170: a list, not empty, of \<open>ConverseMessage\<close> only.\<close>

fun valid_messages :: "messages_arg \<Rightarrow> bool" where
  "valid_messages (NotList v) = False"
| "valid_messages (PyList xs) = (length xs > 0 \<and> list_all isinstance_ConverseMessage xs)"

text \<open>
  Line 183, on one message: its content list without the image blocks. The assignment
  changes the caller's object. Should one object occur twice in the list, it is filtered
  twice, which leaves it as the first filtering did: the list after the call is the list
  of the filtered values.
\<close>

definition remove_images :: "ConverseMessage \<Rightarrow> ConverseMessage" where
  "remove_images msg =
     msg\<lparr>ConverseMessage.content :=
           (ConverseMessage.content msg)\<lparr>ContentBlock.content :=
              filter (\<lambda>item. \<not> isinstance_ImageBlock item)
                (ContentBlock.content (ConverseMessage.content msg))\<rparr>\<rparr>"

fun remove_images_obj :: "pyobj \<Rightarrow> pyobj" where
  "remove_images_obj (Msg m) = Msg (remove_images m)"
| "remove_images_obj (NotMsg v) = NotMsg v"

text \<open>Line 184: does any block of any message satisfy \<open>isinstance(item, ImageBlock)\<close>.\<close>

fun has_image_obj :: "pyobj \<Rightarrow> bool" where
  "has_image_obj (Msg m) =
     list_ex isinstance_ImageBlock (ContentBlock.content (ConverseMessage.content m))"
| "has_image_obj (NotMsg v) = False"

definition any_image :: "pyobj list \<Rightarrow> bool" where
  "any_image xs = list_ex has_image_obj xs"

text \<open>Line 204: the wire form of each message. Validation has passed when this runs.\<close>

fun messages_to_dict :: "Utils \<Rightarrow> pyobj list \<Rightarrow> pyval list" where
  "messages_to_dict u [] = []"
| "messages_to_dict u (Msg m # xs) = message_to_dict u m # messages_to_dict u xs"
| "messages_to_dict u (NotMsg v # xs) = messages_to_dict u xs"

fun the_list :: "messages_arg \<Rightarrow> pyobj list" where
  "the_list (PyList xs) = xs"
| "the_list (NotList v) = []"

subsection \<open>Dispatch and normalisation\<close>

text \<open>A name between single quotes, as the messages of the source write it.\<close>

definition quoted :: "string \<Rightarrow> string" where
  "quoted s = CHR 0x27 # s @ [CHR 0x27]"

text \<open>Lines 212 to 214: the streaming branch, given the answer of the transport.\<close>

definition stream_branch ::
  "Utils \<Rightarrow> callback \<Rightarrow> exn + pydict \<Rightarrow> exn + (ConverseMessage \<times> pydict)" where
  "stream_branch u cb answer =
     (case answer of
        Inl e \<Rightarrow> Inl e
      | Inr response \<Rightarrow> get_stream_message u (dict_get response ''stream'') cb)"

text \<open>
  Lines 216 to 224: the buffered branch, given the answer of the transport. The metadata
  is the response itself. \<open>output.get\<close> on an object that is not a mapping raises
  \<open>AttributeError\<close>.
\<close>

definition buffered_branch ::
  "Utils \<Rightarrow> exn + pydict \<Rightarrow> exn + (ConverseMessage \<times> pydict)" where
  "buffered_branch u answer =
     (case answer of
        Inl e \<Rightarrow> Inl e
      | Inr response \<Rightarrow>
          (case dict_get response ''output'' of
             PNone \<Rightarrow> Inl (KeyError (''Response does not contain '' @ quoted ''output''))
           | PDict output \<Rightarrow>
               (case dict_get output ''message'' of
                  PNone \<Rightarrow>
                    Inl (KeyError (''Response '' @ quoted ''output'' @
                                   '' does not contain '' @ quoted ''message''))
                | m \<Rightarrow>
                    (case message_from_dict u m of
                       Inl e \<Rightarrow> Inl e
                     | Inr msg \<Rightarrow> Inr (msg, response)))
           | other \<Rightarrow> Inl (AttributeError (''object has no attribute '' @ quoted ''get''))))"

text \<open>Line 163: the callback of the call, or else the callback of the instance.\<close>

definition callback_in_effect :: "Generator \<Rightarrow> callback option \<Rightarrow> callback option" where
  "callback_in_effect self streaming_callback' =
     (case streaming_callback' of Some c \<Rightarrow> Some c | None \<Rightarrow> streaming_callback self)"

text \<open>Lines 211 to 224: the choice of the branch, and the call of the transport.\<close>

definition streaming :: "Generator \<Rightarrow> callback option \<Rightarrow> bool" where
  "streaming self cb = (cb \<noteq> None \<and> CONVERSE_STREAM \<in> model_capabilities self)"

definition fetch ::
  "Utils \<Rightarrow> Generator \<Rightarrow> callback option \<Rightarrow> pydict \<Rightarrow> exn + (ConverseMessage \<times> pydict)" where
  "fetch u self cb request_kwargs =
     (if streaming self cb
      then stream_branch u (the cb) (converse_stream (client self) request_kwargs)
      else buffered_branch u (converse (client self) request_kwargs))"

text \<open>Lines 226 to 234: the output record from the message and the metadata.\<close>

definition make_result :: "ModelCapability set \<Rightarrow> ConverseMessage \<Rightarrow> pydict \<Rightarrow> Result" where
  "make_result caps msg metadata =
     \<lparr>message = msg,
      usage = dict_get metadata ''usage'',
      metrics = dict_get metadata ''metrics'',
      guardrail_trace = (if GUARDRAILS \<in> caps then dict_get metadata ''trace'' else PNone),
      stop_reason = dict_get metadata ''stopReason''\<rparr>"

text \<open>Lines 236 to 238: the only handler of the \<open>try\<close> block, for \<open>ClientError\<close>.\<close>

fun except_ClientError :: "string \<Rightarrow> exn + 'a \<Rightarrow> exn + 'a" where
  "except_ClientError m (Inl (ClientError e)) =
     Inl (AmazonBedrockInferenceError (inference_error_msg m e) (ClientError e))"
| "except_ClientError m other = other"

text \<open>The answer of the client to an invocation that the effects record.\<close>

fun perform :: "Client \<Rightarrow> transport_call \<Rightarrow> exn + pydict" where
  "perform c (Converse request_kwargs) = converse c request_kwargs"
| "perform c (ConverseStream request_kwargs) = converse_stream c request_kwargs"

subsection \<open>run\<close>

text \<open>Lines 181 to 183: without \<open>VISION\<close>, every message loses its image blocks.\<close>

definition strip_images :: "ModelCapability set \<Rightarrow> pyobj list \<Rightarrow> pyobj list" where
  "strip_images caps msgs =
     (if VISION \<notin> caps then map remove_images_obj msgs else msgs)"

text \<open>Lines 192 to 194: without \<open>TOOL_USE\<close>, a tool configuration is replaced by \<open>None\<close>.\<close>

definition usable_tool_config :: "ModelCapability set \<Rightarrow> pyval \<Rightarrow> pyval" where
  "usable_tool_config caps tool_config' =
     (if TOOL_USE \<notin> caps \<and> truthy tool_config' then PNone else tool_config')"

text \<open>Lines 201 to 208: the keywords of the request.\<close>

definition build_request :: "Utils \<Rightarrow> string \<Rightarrow> pyval \<Rightarrow> pyobj list \<Rightarrow> pyval \<Rightarrow> pydict" where
  "build_request u m inference_config' msgs tc =
     [(''modelId'', PStr m),
      (''inferenceConfig'', inference_config'),
      (''messages'', PList (messages_to_dict u msgs))]
     @ (if truthy tc then [(''toolConfig'', tc)] else [])"

text \<open>
  \<open>run\<close>, line by line. The arguments carry a prime where the name is also an attribute
  of the instance. The value is what the call returns or raises, with its effects.
  The assignment of line 179 is \<open>sp1\<close>: nothing reads it afterwards.
\<close>

definition run ::
  "Utils \<Rightarrow> Generator \<Rightarrow> messages_arg \<Rightarrow> callback option \<Rightarrow> pyval \<Rightarrow> pyval \<Rightarrow> pyval
     \<Rightarrow> (exn + Result) \<times> Effects" where
  "run u self messages streaming_callback' inference_config' tool_config' system_prompt' =
    (let caps = model_capabilities self;
         cb = callback_in_effect self streaming_callback';
         sp = py_or system_prompt' (system_prompt self)
     in
     if \<not> valid_messages messages then
       (Inl (ValueError (invalid_input_msg (model self))),
        \<lparr>messages_after = messages, warnings = [], calls = []\<rparr>)
     else
       let w1 = (if SYSTEM_PROMPTS \<notin> caps \<and> truthy sp
                 then [system_prompt_warning (model self)] else []);
           sp1 = (if SYSTEM_PROMPTS \<notin> caps \<and> truthy sp then PNone else sp);
           msgs = strip_images caps (the_list messages);
           w2 = (if VISION \<notin> caps \<and> any_image msgs
                 then [vision_warning (model self)] else []);
           w3 = (if DOCUMENT_CHAT \<notin> caps
                 then [document_chat_warning (model self)] else []);
           w4 = (if TOOL_USE \<notin> caps \<and> truthy tool_config'
                 then [tools_warning (model self)] else []);
           tc = usable_tool_config caps tool_config';
           w5 = (if STREAMING_TOOL_USE \<notin> caps \<and> cb \<noteq> None \<and> truthy tc
                 then [streaming_tool_use_warning (model self)] else []);
           request_kwargs = build_request u (model self) inference_config' msgs tc
       in
       (except_ClientError (model self)
          (case fetch u self cb request_kwargs of
             Inl e \<Rightarrow> Inl e
           | Inr (msg, metadata) \<Rightarrow> Inr (make_result caps msg metadata)),
        \<lparr>messages_after = PyList msgs,
         warnings = w1 @ w2 @ w3 @ w4 @ w5,
         calls = [if streaming self cb then ConverseStream request_kwargs
                  else Converse request_kwargs]\<rparr>))"

section \<open>Construction\<close>

text \<open>
  What the constructor reads from outside the class: the resolution of a secret
  (\<open>Secret.resolve_value\<close>), the session factory \<open>get_aws_session\<close>, the capability
  registry \<open>MODEL_CAPABILITIES\<close> (a mapping from patterns to capability sets, read in
  its order of declaration) and the regular expression matcher \<open>re.match\<close>, which
  matches a pattern at the start of a string.
\<close>

record Session =
  session_client :: "string \<Rightarrow> exn + Client"

record Env =
  resolve_value :: "Secret \<Rightarrow> exn + string option"
  get_aws_session ::
    "string option \<Rightarrow> string option \<Rightarrow> string option \<Rightarrow> string option \<Rightarrow> string option
       \<Rightarrow> exn + Session"
  MODEL_CAPABILITIES :: "(string \<times> ModelCapability set) list"
  re_match :: "string \<Rightarrow> string \<Rightarrow> bool"

text \<open>Sequencing of steps that may raise: the first exception ends the sequence.\<close>

definition bind :: "exn + 'a \<Rightarrow> ('a \<Rightarrow> exn + 'b) \<Rightarrow> exn + 'b" where
  "bind x f = (case x of Inl e \<Rightarrow> Inl e | Inr v \<Rightarrow> f v)"

text \<open>Lines 116 and 117.\<close>

definition resolve_secret :: "Env \<Rightarrow> Secret option \<Rightarrow> exn + string option" where
  "resolve_secret env secret =
     (case secret of Some s \<Rightarrow> resolve_value env s | None \<Rightarrow> Inr None)"

text \<open>Lines 142 to 146: the loop over the registry, first match wins.\<close>

fun get_model_capabilities ::
  "(string \<Rightarrow> string \<Rightarrow> bool) \<Rightarrow> (string \<times> ModelCapability set) list \<Rightarrow> string
     \<Rightarrow> exn + ModelCapability set" where
  "get_model_capabilities matches [] m = Inl (ValueError (''Unsupported model: '' @ m))"
| "get_model_capabilities matches ((pattern, capabilities) # rest) m =
     (if matches pattern m then Inr capabilities
      else get_model_capabilities matches rest m)"

definition connect_msg :: string where
  "connect_msg =
     ''Could not connect to Amazon Bedrock. Make sure the AWS environment is configured correctly. '' @
     ''See https://boto3.amazonaws.com/v1/documentation/api/latest/guide/quickstart.html#configuration''"

text \<open>Lines 119 to 133: the body of the \<open>try\<close> block of the constructor.\<close>

definition init_try :: "Env \<Rightarrow> InitParameters \<Rightarrow> exn + Generator" where
  "init_try env p =
     bind (resolve_secret env (aws_access_key_id p)) (\<lambda>key_id.
     bind (resolve_secret env (aws_secret_access_key p)) (\<lambda>secret_key.
     bind (resolve_secret env (aws_session_token p)) (\<lambda>token.
     bind (resolve_secret env (aws_region_name p)) (\<lambda>region.
     bind (resolve_secret env (aws_profile_name p)) (\<lambda>profile.
     bind (get_aws_session env key_id secret_key token region profile) (\<lambda>session.
     bind (session_client session ''bedrock-runtime'') (\<lambda>c.
     bind (get_model_capabilities (re_match env) (MODEL_CAPABILITIES env) (model p)) (\<lambda>caps.
     Inr \<lparr>model = model p,
          aws_access_key_id = aws_access_key_id p,
          aws_secret_access_key = aws_secret_access_key p,
          aws_session_token = aws_session_token p,
          aws_region_name = aws_region_name p,
          aws_profile_name = aws_profile_name p,
          inference_config = inference_config p,
          tool_config = tool_config p,
          streaming_callback = streaming_callback p,
          system_prompt = system_prompt p,
          client = c,
          model_capabilities = caps\<rparr>))))))))"

text \<open>
  \<open>__init__\<close>: the test of the model name, then the \<open>try\<close> block, whose handler
  (\<open>except Exception\<close>) turns every exception into a configuration error.
\<close>

definition init :: "Env \<Rightarrow> InitParameters \<Rightarrow> exn + Generator" where
  "init env p =
     (if model p = [] then
        Inl (ValueError (quoted ''model'' @ '' cannot be None or empty string''))
      else
        (case init_try env p of
           Inl exception \<Rightarrow> Inl (AmazonBedrockConfigurationError connect_msg exception)
         | Inr self \<Rightarrow> Inr self))"

section \<open>Serialisation\<close>

text \<open>
  The helpers of the host framework that \<open>to_dict\<close> calls: \<open>Secret.to_dict\<close> and
  \<open>serialize_callable\<close>. Either may raise.
\<close>

record Haystack =
  secret_to_dict :: "Secret \<Rightarrow> exn + pyval"
  serialize_callable :: "callback \<Rightarrow> exn + pyval"

text \<open>\<open>x.to_dict() if x else None\<close>, for a secret; a secret object is always true.\<close>

definition secret_or_None :: "Haystack \<Rightarrow> Secret option \<Rightarrow> exn + pyval" where
  "secret_or_None h secret =
     (case secret of Some s \<Rightarrow> secret_to_dict h s | None \<Rightarrow> Inr PNone)"

definition qualified_class_name :: string where
  "qualified_class_name =
     ''haystack_integrations.components.generators.amazon_bedrock.converse.'' @
     ''converse_generator.AmazonBedrockConverseGenerator''"

text \<open>\<open>default_to_dict(obj, **init_parameters)\<close> of the host framework.\<close>

definition default_to_dict :: "pydict \<Rightarrow> pydict" where
  "default_to_dict init_parameters =
     [(''type'', PStr qualified_class_name), (''init_parameters'', PDict init_parameters)]"

text \<open>Lines 247 to 257.\<close>

definition to_dict :: "Haystack \<Rightarrow> Generator \<Rightarrow> exn + pydict" where
  "to_dict h self =
     bind (case streaming_callback self of Some c \<Rightarrow> serialize_callable h c | None \<Rightarrow> Inr PNone)
       (\<lambda>callback_name.
     bind (secret_or_None h (aws_access_key_id self)) (\<lambda>key_id.
     bind (secret_or_None h (aws_secret_access_key self)) (\<lambda>secret_key.
     bind (secret_or_None h (aws_session_token self)) (\<lambda>token.
     bind (secret_or_None h (aws_region_name self)) (\<lambda>region.
     bind (secret_or_None h (aws_profile_name self)) (\<lambda>profile.
     Inr (default_to_dict
            [(''aws_access_key_id'', key_id),
             (''aws_secret_access_key'', secret_key),
             (''aws_session_token'', token),
             (''aws_region_name'', region),
             (''aws_profile_name'', profile),
             (''model'', PStr (model self)),
             (''streaming_callback'', callback_name)])))))))"

section \<open>Concrete instances\<close>

text \<open>
  Small concrete collaborators, messages and generators, on which the theorems below are
  evaluated. The codec writes a message as the number of its content blocks, which makes
  the effect of filtering visible in a request; the registry patterns are made of
  letters only, for which \<open>re.match\<close> is a comparison with the start of the string, and
  no environment variable is set.
\<close>

definition hello_message :: ConverseMessage where
  "hello_message = \<lparr>role = USER, content = \<lparr>ContentBlock.content = [TextBlock ''hello'']\<rparr>\<rparr>"

definition picture_message :: ConverseMessage where
  "picture_message =
     \<lparr>role = USER,
      content = \<lparr>ContentBlock.content =
                  [TextBlock ''look'', ImageBlock (PStr ''png''), TextBlock ''what is it'']\<rparr>\<rparr>"

definition reply_message :: ConverseMessage where
  "reply_message = \<lparr>role = ASSISTANT, content = \<lparr>ContentBlock.content = [TextBlock ''hi'']\<rparr>\<rparr>"

definition sample_utils :: Utils where
  "sample_utils =
     \<lparr>message_to_dict =
        (\<lambda>m. PInt (int (length (ContentBlock.content (ConverseMessage.content m))))),
      message_from_dict = (\<lambda>v. Inr reply_message),
      get_stream_message =
        (\<lambda>stream cb. Inr (reply_message, [(''trace'', PStr ''streamed trace'')]))\<rparr>"

definition sample_response :: pydict where
  "sample_response =
     [(''output'', PDict [(''message'', PDict [(''role'', PStr ''assistant'')])]),
      (''stopReason'', PStr ''end_turn''),
      (''trace'', PStr ''buffered trace'')]"

definition sample_client :: "exn + pydict \<Rightarrow> Client" where
  "sample_client answer =
     \<lparr>converse = (\<lambda>request_kwargs. answer),
      converse_stream = (\<lambda>request_kwargs. Inr [(''stream'', PStr ''events'')])\<rparr>"

definition sample_generator :: "ModelCapability set \<Rightarrow> exn + pydict \<Rightarrow> Generator" where
  "sample_generator caps answer =
     \<lparr>model = ''some.model-v1'',
      aws_access_key_id = Some (EnvVarSecret [''AWS_ACCESS_KEY_ID''] False),
      aws_secret_access_key = Some (EnvVarSecret [''AWS_SECRET_ACCESS_KEY''] False),
      aws_session_token = None,
      aws_region_name = None,
      aws_profile_name = None,
      inference_config = PNone,
      tool_config = PNone,
      streaming_callback = None,
      system_prompt = PNone,
      client = sample_client answer,
      model_capabilities = caps\<rparr>"

definition failing_stream_generator :: Generator where
  "failing_stream_generator =
     (sample_generator {CONVERSE_STREAM, VISION} (Inr sample_response))
       \<lparr>client := \<lparr>converse = (\<lambda>request_kwargs. Inr sample_response),
                   converse_stream = (\<lambda>request_kwargs. Inl (OtherError ''ReadTimeoutError''))\<rparr>\<rparr>"

definition sample_env :: Env where
  "sample_env =
     \<lparr>resolve_value =
        (\<lambda>secret. case secret of
           EnvVarSecret names strict \<Rightarrow>
             if strict then Inl (ValueError ''None of the environment variables are set'')
             else Inr None
         | TokenSecret token \<Rightarrow> Inr (Some token)),
      get_aws_session =
        (\<lambda>key_id secret_key token region profile.
           Inr \<lparr>session_client = (\<lambda>service. Inr (sample_client (Inr sample_response)))\<rparr>),
      MODEL_CAPABILITIES =
        [(''anthropic'', {SYSTEM_PROMPTS, VISION, TOOL_USE, CONVERSE_STREAM}),
         (''amazon'', {CONVERSE_STREAM})],
      re_match = (\<lambda>pattern s. take (length pattern) s = pattern)\<rparr>"

definition sample_parameters :: "string \<Rightarrow> InitParameters" where
  "sample_parameters m =
     \<lparr>model = m,
      aws_access_key_id = Some (EnvVarSecret [''AWS_ACCESS_KEY_ID''] False),
      aws_secret_access_key = Some (EnvVarSecret [''AWS_SECRET_ACCESS_KEY''] False),
      aws_session_token = Some (EnvVarSecret [''AWS_SESSION_TOKEN''] False),
      aws_region_name = Some (EnvVarSecret [''AWS_DEFAULT_REGION''] False),
      aws_profile_name = Some (EnvVarSecret [''AWS_PROFILE''] False),
      inference_config = PNone,
      tool_config = PNone,
      streaming_callback = None,
      system_prompt = PNone\<rparr>"

definition sample_haystack :: Haystack where
  "sample_haystack =
     \<lparr>secret_to_dict =
        (\<lambda>secret. case secret of
           EnvVarSecret names strict \<Rightarrow>
             Inr (PDict [(''type'', PStr ''env_var''),
                         (''env_vars'', PList (map PStr names)),
                         (''strict'', PBool strict)])
         | TokenSecret token \<Rightarrow>
             Inl (ValueError ''Cannot serialize token-based secret.'')),
      serialize_callable = (\<lambda>c. case c of Callback name \<Rightarrow> Inr (PStr name))\<rparr>"

section \<open>Auxiliary facts\<close>

lemmas sample_defs =
  hello_message_def picture_message_def reply_message_def sample_utils_def
  sample_response_def sample_client_def sample_generator_def

lemmas run_defs =
  run_def Let_def strip_images_def usable_tool_config_def build_request_def
  callback_in_effect_def streaming_def remove_images_def any_image_def py_or_def

text \<open>Once the image blocks are removed, the test of line 184 finds none.\<close>

lemma any_image_removed: "any_image (map remove_images_obj xs) = False"
  unfolding any_image_def
proof (induction xs)
  case Nil
  show ?case by simp
next
  case (Cons x xs)
  then show ?case
    by (cases x) (simp_all add: remove_images_def list_ex_iff)
qed

text \<open>\<open>run\<close> on messages that pass the validation, with the bindings of the source read off.\<close>

lemma run_valid:
  assumes "valid_messages messages"
  shows "run u self messages cb ic tc sp =
    (let caps = model_capabilities self;
         cb' = callback_in_effect self cb;
         msgs = strip_images caps (the_list messages);
         tc' = usable_tool_config caps tc;
         req = build_request u (model self) ic msgs tc'
     in (except_ClientError (model self)
          (case fetch u self cb' req of
             Inl e \<Rightarrow> Inl e
           | Inr (msg, metadata) \<Rightarrow> Inr (make_result caps msg metadata)),
        \<lparr>messages_after = PyList msgs,
         warnings =
           (if SYSTEM_PROMPTS \<notin> caps \<and> truthy (py_or sp (system_prompt self))
            then [system_prompt_warning (model self)] else [])
           @ (if VISION \<notin> caps \<and> any_image msgs then [vision_warning (model self)] else [])
           @ (if DOCUMENT_CHAT \<notin> caps then [document_chat_warning (model self)] else [])
           @ (if TOOL_USE \<notin> caps \<and> truthy tc then [tools_warning (model self)] else [])
           @ (if STREAMING_TOOL_USE \<notin> caps \<and> cb' \<noteq> None \<and> truthy tc'
              then [streaming_tool_use_warning (model self)] else []),
         calls = [if streaming self cb' then ConverseStream req else Converse req]\<rparr>))"
  using assms by (simp add: run_def Let_def)

text \<open>The transport is invoked only after the validation has passed.\<close>

lemma calls_nonempty_valid:
  assumes "calls (snd (run u self messages cb ic tc sp)) = call # rest"
  shows "valid_messages messages"
proof (rule ccontr)
  assume "\<not> valid_messages messages"
  then have "calls (snd (run u self messages cb ic tc sp)) = []"
    by (simp add: run_def Let_def)
  with assms show False by simp
qed

text \<open>Nothing in the dispatch reads the system prompt of the instance.\<close>

lemma callback_in_effect_system_prompt:
  "callback_in_effect (self\<lparr>system_prompt := x\<rparr>) cb = callback_in_effect self cb"
  by (cases cb) (simp_all add: callback_in_effect_def)

lemma streaming_system_prompt:
  "streaming (self\<lparr>system_prompt := x\<rparr>) cb = streaming self cb"
  by (simp add: streaming_def)

lemma fetch_system_prompt:
  "fetch u (self\<lparr>system_prompt := x\<rparr>) cb req = fetch u self cb req"
  by (simp add: fetch_def streaming_def)

section \<open>Input validation\<close>

text \<open>
  Claim C5. When the \<open>messages\<close> argument is an empty list, is not a list, or is a list
  with an element that is not a \<open>ConverseMessage\<close>, \<open>run\<close> raises the \<open>ValueError\<close> of
  line 172 and has done nothing else: no warning is logged (no capability filtering has
  run), no operation of the transport is invoked, and the caller's \<open>messages\<close> object is
  as it was.
\<close>

theorem run_invalid_input:
  assumes "messages = PyList []
           \<or> (\<exists>v. messages = NotList v)
           \<or> (\<exists>xs v. messages = PyList xs \<and> NotMsg v \<in> set xs)"
  shows "run u self messages cb ic tc sp =
     (Inl (ValueError (invalid_input_msg (model self))),
      \<lparr>messages_after = messages, warnings = [], calls = []\<rparr>)"
proof -
  have "\<not> valid_messages messages"
    using assms by (fastforce simp: list_all_iff)
  then show ?thesis
    by (simp add: run_def Let_def)
qed

text \<open>The three kinds of invalid input, on a concrete generator.\<close>

theorem run_invalid_input_witness:
  "run sample_utils (sample_generator {} (Inr sample_response)) (PyList [])
       None (PDict []) PNone PNone =
     (Inl (ValueError (invalid_input_msg ''some.model-v1'')),
      \<lparr>messages_after = PyList [], warnings = [], calls = []\<rparr>)
   \<and> run sample_utils (sample_generator {} (Inr sample_response)) (NotList (PStr ''hello''))
       None (PDict []) PNone PNone =
     (Inl (ValueError (invalid_input_msg ''some.model-v1'')),
      \<lparr>messages_after = NotList (PStr ''hello''), warnings = [], calls = []\<rparr>)
   \<and> run sample_utils (sample_generator {} (Inr sample_response))
       (PyList [Msg picture_message, NotMsg (PStr ''hello'')]) None (PDict []) PNone PNone =
     (Inl (ValueError (invalid_input_msg ''some.model-v1'')),
      \<lparr>messages_after = PyList [Msg picture_message, NotMsg (PStr ''hello'')],
       warnings = [], calls = []\<rparr>)"
  using
    run_invalid_input [of "PyList []" sample_utils
      "sample_generator {} (Inr sample_response)" None "PDict []" PNone PNone]
    run_invalid_input [of "NotList (PStr ''hello'')" sample_utils
      "sample_generator {} (Inr sample_response)" None "PDict []" PNone PNone]
    run_invalid_input [of "PyList [Msg picture_message, NotMsg (PStr ''hello'')]" sample_utils
      "sample_generator {} (Inr sample_response)" None "PDict []" PNone PNone]
  by (simp add: sample_generator_def)

section \<open>Filtering\<close>

text \<open>
  The warning about vision is never logged, whatever the call: when \<open>VISION\<close> is missing,
  the test of line 184 reads the content lists that line 183 has just filtered.
\<close>

lemma run_never_warns_about_vision:
  "vision_warning (model self) \<notin> set (warnings (snd (run u self messages cb ic tc sp)))"
  by (simp add: run_def Let_def strip_images_def any_image_removed vision_warning_def
       system_prompt_warning_def document_chat_warning_def tools_warning_def
       streaming_tool_use_warning_def)

text \<open>
  Claim C1. The claim is that, without \<open>VISION\<close>, the image blocks are removed in place
  and exactly one warning is logged if and only if a block was removed. The source does
  remove the blocks and does not log the warning. Here a generator whose capabilities
  are \<open>DOCUMENT_CHAT\<close> only receives one message with two text blocks and one image
  block: after the call the caller's message holds the two text blocks, the request
  carries the filtered message, and no warning at all has been logged.
\<close>

theorem run_removes_images_without_warning:
  "run sample_utils (sample_generator {DOCUMENT_CHAT} (Inr sample_response))
       (PyList [Msg picture_message]) None (PDict []) PNone PNone
   = (Inr (make_result {DOCUMENT_CHAT} reply_message sample_response),
      \<lparr>messages_after =
         PyList [Msg \<lparr>role = USER,
                      content = \<lparr>ContentBlock.content =
                                  [TextBlock ''look'', TextBlock ''what is it'']\<rparr>\<rparr>],
       warnings = [],
       calls = [Converse [(''modelId'', PStr ''some.model-v1''),
                          (''inferenceConfig'', PDict []),
                          (''messages'', PList [PInt 2])]]\<rparr>)"
  by (simp add: run_defs sample_defs fetch_def buffered_branch_def dict_get_def)

text \<open>
  Claim C8 as stated: whenever \<open>SYSTEM_PROMPTS\<close> is missing and a non-empty system prompt
  is given, one warning is logged. It fails for a call that the validation rejects: the
  \<open>ValueError\<close> is raised before the check of the system prompt, and nothing is logged.
\<close>

theorem system_prompt_warning_counterexample:
  "SYSTEM_PROMPTS \<notin> model_capabilities (sample_generator {DOCUMENT_CHAT} (Inr sample_response))
   \<and> truthy (PList [PDict [(''text'', PStr ''Answer in German'')]])
   \<and> warnings (snd (run sample_utils (sample_generator {DOCUMENT_CHAT} (Inr sample_response))
        (PyList []) None (PDict []) PNone (PList [PDict [(''text'', PStr ''Answer in German'')]])))
     = []"
  by (simp add: run_defs sample_defs)

text \<open>
  Claim C8, amended. For a generator without \<open>SYSTEM_PROMPTS\<close>, a non-empty system prompt
  and messages that pass the validation: the call with the system prompt returns or
  raises what the call with no system prompt (none in the call, none in the instance)
  does, leaves the same messages and invokes the transport with the same request; its
  warnings are those of the call with no system prompt, preceded by exactly one warning
  about system prompts, which names the model.
\<close>

theorem system_prompt_dropped:
  assumes "valid_messages messages"
    and "SYSTEM_PROMPTS \<notin> model_capabilities self"
    and "truthy sp"
  shows "fst (run u self messages cb ic tc sp)
           = fst (run u (self\<lparr>system_prompt := PNone\<rparr>) messages cb ic tc PNone)
       \<and> messages_after (snd (run u self messages cb ic tc sp))
           = messages_after (snd (run u (self\<lparr>system_prompt := PNone\<rparr>) messages cb ic tc PNone))
       \<and> calls (snd (run u self messages cb ic tc sp))
           = calls (snd (run u (self\<lparr>system_prompt := PNone\<rparr>) messages cb ic tc PNone))
       \<and> warnings (snd (run u self messages cb ic tc sp))
           = system_prompt_warning (model self)
             # warnings (snd (run u (self\<lparr>system_prompt := PNone\<rparr>) messages cb ic tc PNone))"
  using assms
  by (simp add: run_valid Let_def fetch_system_prompt callback_in_effect_system_prompt
        streaming_system_prompt py_or_def)

theorem system_prompt_dropped_witness:
  "valid_messages (PyList [Msg hello_message])
   \<and> SYSTEM_PROMPTS \<notin> model_capabilities (sample_generator {DOCUMENT_CHAT} (Inr sample_response))
   \<and> truthy (PList [PDict [(''text'', PStr ''Answer in German'')]])
   \<and> warnings (snd (run sample_utils (sample_generator {DOCUMENT_CHAT} (Inr sample_response))
        (PyList [Msg hello_message]) None (PDict []) PNone PNone)) = []
   \<and> warnings (snd (run sample_utils (sample_generator {DOCUMENT_CHAT} (Inr sample_response))
        (PyList [Msg hello_message]) None (PDict []) PNone
        (PList [PDict [(''text'', PStr ''Answer in German'')]])))
     = [system_prompt_warning ''some.model-v1'']
   \<and> fst (run sample_utils (sample_generator {DOCUMENT_CHAT} (Inr sample_response))
        (PyList [Msg hello_message]) None (PDict []) PNone
        (PList [PDict [(''text'', PStr ''Answer in German'')]]))
     = fst (run sample_utils (sample_generator {DOCUMENT_CHAT} (Inr sample_response))
        (PyList [Msg hello_message]) None (PDict []) PNone PNone)"
proof -
  let ?g = "sample_generator {DOCUMENT_CHAT} (Inr sample_response)"
  let ?sp = "PList [PDict [(''text'', PStr ''Answer in German'')]]"
  have v: "valid_messages (PyList [Msg hello_message])"
    by simp
  have c: "SYSTEM_PROMPTS \<notin> model_capabilities ?g"
    by (simp add: sample_generator_def)
  have t: "truthy ?sp"
    by simp
  have same: "?g\<lparr>system_prompt := PNone\<rparr> = ?g"
    by (simp add: sample_generator_def)
  have m: "model ?g = ''some.model-v1''"
    by (simp add: sample_generator_def)
  have w: "warnings (snd (run sample_utils ?g (PyList [Msg hello_message]) None (PDict [])
                 PNone PNone)) = []"
    by (simp add: run_defs sample_defs)
  show ?thesis
    using system_prompt_dropped [OF v c t, of sample_utils None "PDict []" PNone] v c t w
    by (simp add: same m)
qed

section \<open>The request and the dispatch\<close>

text \<open>
  Claim C10. In every call, each invocation of the transport carries a request with
  exactly the keys \<open>modelId\<close>, \<open>inferenceConfig\<close> and \<open>messages\<close>, in this order, and the
  key \<open>toolConfig\<close> after them when the tool configuration is still true after line 194;
  the values are the model name, the inference configuration of the call, the wire form
  of the filtered messages and that tool configuration. A call that the validation
  rejects sends nothing. The system prompt is not in the request, and it has no effect
  on what is sent: the invocations are the same for any system prompt of the call and
  any system prompt of the instance, whatever the capabilities.
\<close>

theorem request_fields:
  "map request (calls (snd (run u self messages cb ic tc sp))) =
     (if valid_messages messages then
        ([(''modelId'', PStr (model self)),
          (''inferenceConfig'', ic),
          (''messages'',
             PList (messages_to_dict u
                      (strip_images (model_capabilities self) (the_list messages))))]
         @ (if truthy (usable_tool_config (model_capabilities self) tc)
            then [(''toolConfig'', usable_tool_config (model_capabilities self) tc)]
            else [])) # []
      else [])
   \<and> calls (snd (run u self messages cb ic tc sp))
       = calls (snd (run u (self\<lparr>system_prompt := sp0\<rparr>) messages cb ic tc sp'))"
  by (simp add: run_def Let_def build_request_def callback_in_effect_system_prompt
        streaming_system_prompt)

text \<open>
  A model with \<open>SYSTEM_PROMPTS\<close>, a system prompt on the instance and another in the
  call: the request has the four keys and no system prompt, and it is the request of
  the same call without any system prompt.
\<close>

theorem request_fields_witness:
  "calls (snd (run sample_utils
        ((sample_generator {SYSTEM_PROMPTS, TOOL_USE} (Inr sample_response))
           \<lparr>system_prompt := PList [PDict [(''text'', PStr ''Be brief'')]]\<rparr>)
        (PyList [Msg picture_message]) None (PDict [(''maxTokens'', PInt 512)])
        (PDict [(''tools'', PList [PStr ''search''])])
        (PList [PDict [(''text'', PStr ''Answer in German'')]])))
     = [Converse [(''modelId'', PStr ''some.model-v1''),
                  (''inferenceConfig'', PDict [(''maxTokens'', PInt 512)]),
                  (''messages'', PList [PInt 2]),
                  (''toolConfig'', PDict [(''tools'', PList [PStr ''search''])])]]
   \<and> calls (snd (run sample_utils
        ((sample_generator {SYSTEM_PROMPTS, TOOL_USE} (Inr sample_response))
           \<lparr>system_prompt := PList [PDict [(''text'', PStr ''Be brief'')]]\<rparr>)
        (PyList [Msg picture_message]) None (PDict [(''maxTokens'', PInt 512)])
        (PDict [(''tools'', PList [PStr ''search''])])
        (PList [PDict [(''text'', PStr ''Answer in German'')]])))
     = calls (snd (run sample_utils
        ((sample_generator {SYSTEM_PROMPTS, TOOL_USE} (Inr sample_response))
           \<lparr>system_prompt := PNone\<rparr>)
        (PyList [Msg picture_message]) None (PDict [(''maxTokens'', PInt 512)])
        (PDict [(''tools'', PList [PStr ''search''])]) PNone))"
proof -
  let ?g = "(sample_generator {SYSTEM_PROMPTS, TOOL_USE} (Inr sample_response))
           \<lparr>system_prompt := PList [PDict [(''text'', PStr ''Be brief'')]]\<rparr>"
  have e: "calls (snd (run sample_utils ?g
        (PyList [Msg picture_message]) None (PDict [(''maxTokens'', PInt 512)])
        (PDict [(''tools'', PList [PStr ''search''])])
        (PList [PDict [(''text'', PStr ''Answer in German'')]])))
     = [Converse [(''modelId'', PStr ''some.model-v1''),
                  (''inferenceConfig'', PDict [(''maxTokens'', PInt 512)]),
                  (''messages'', PList [PInt 2]),
                  (''toolConfig'', PDict [(''tools'', PList [PStr ''search''])])]]"
    by (simp add: run_defs sample_defs)
  have i: "calls (snd (run sample_utils ?g
        (PyList [Msg picture_message]) None (PDict [(''maxTokens'', PInt 512)])
        (PDict [(''tools'', PList [PStr ''search''])])
        (PList [PDict [(''text'', PStr ''Answer in German'')]])))
     = calls (snd (run sample_utils (?g\<lparr>system_prompt := PNone\<rparr>)
        (PyList [Msg picture_message]) None (PDict [(''maxTokens'', PInt 512)])
        (PDict [(''tools'', PList [PStr ''search''])]) PNone))"
    using request_fields [of sample_utils ?g "PyList [Msg picture_message]" None
                 "PDict [(''maxTokens'', PInt 512)]" "PDict [(''tools'', PList [PStr ''search''])]"
                 "PList [PDict [(''text'', PStr ''Answer in German'')]]" PNone PNone]
    by (rule conjunct2)
  from e i show ?thesis
    by simp
qed

text \<open>
  Claim C2 as stated: in every call, the streaming operation is invoked if and only if a
  callback is in effect and \<open>CONVERSE_STREAM\<close> is in the capability set. It fails for a
  call that the validation rejects: with a callback and \<open>CONVERSE_STREAM\<close>, and an empty
  list of messages, no operation of the transport is invoked at all.
\<close>

theorem dispatch_counterexample:
  "callback_in_effect (sample_generator {CONVERSE_STREAM} (Inr sample_response))
       (Some (Callback ''print_chunk'')) \<noteq> None
   \<and> CONVERSE_STREAM \<in> model_capabilities (sample_generator {CONVERSE_STREAM} (Inr sample_response))
   \<and> calls (snd (run sample_utils (sample_generator {CONVERSE_STREAM} (Inr sample_response))
        (PyList []) (Some (Callback ''print_chunk'')) (PDict []) PNone PNone)) = []"
  by (simp add: run_defs sample_defs)

text \<open>
  Claim C2, amended. In every call whose messages pass the validation, exactly one
  operation of the transport is invoked: \<open>converse_stream\<close> if and only if a callback is
  in effect (that of the call, or else that of the instance) and \<open>CONVERSE_STREAM\<close> is in
  the capability set, and \<open>converse\<close> in every other case. \<open>STREAMING_TOOL_USE\<close> and the
  tool configuration do not occur in the condition: the check of line 196 only logs.
\<close>

theorem dispatch_streaming_iff:
  assumes "valid_messages messages"
  shows "((\<exists>req. calls (snd (run u self messages cb ic tc sp)) = [ConverseStream req])
           \<longleftrightarrow> callback_in_effect self cb \<noteq> None \<and> CONVERSE_STREAM \<in> model_capabilities self)
       \<and> ((\<exists>req. calls (snd (run u self messages cb ic tc sp)) = [Converse req])
           \<longleftrightarrow> \<not> (callback_in_effect self cb \<noteq> None \<and> CONVERSE_STREAM \<in> model_capabilities self))"
  using assms by (simp add: run_def Let_def streaming_def)

text \<open>
  A callback, \<open>CONVERSE_STREAM\<close> without \<open>STREAMING_TOOL_USE\<close>, and a tool configuration
  that survives (\<open>TOOL_USE\<close> is present): the warning of line 197 is logged and the
  streaming operation is invoked all the same.
\<close>

theorem dispatch_streaming_iff_witness:
  "valid_messages (PyList [Msg hello_message])
   \<and> run sample_utils
        (sample_generator {CONVERSE_STREAM, TOOL_USE, DOCUMENT_CHAT, VISION} (Inr sample_response))
        (PyList [Msg hello_message]) (Some (Callback ''print_chunk'')) (PDict [])
        (PDict [(''tools'', PList [PStr ''search''])]) PNone
       = (Inr (make_result {CONVERSE_STREAM, TOOL_USE, DOCUMENT_CHAT, VISION} reply_message
                 [(''trace'', PStr ''streamed trace'')]),
          \<lparr>messages_after = PyList [Msg hello_message],
           warnings = [streaming_tool_use_warning ''some.model-v1''],
           calls = [ConverseStream [(''modelId'', PStr ''some.model-v1''),
                                    (''inferenceConfig'', PDict []),
                                    (''messages'', PList [PInt 1]),
                                    (''toolConfig'', PDict [(''tools'', PList [PStr ''search''])])]]\<rparr>)
   \<and> (\<exists>req. calls (snd (run sample_utils
        (sample_generator {CONVERSE_STREAM, TOOL_USE, DOCUMENT_CHAT, VISION} (Inr sample_response))
        (PyList [Msg hello_message]) (Some (Callback ''print_chunk'')) (PDict [])
        (PDict [(''tools'', PList [PStr ''search''])]) PNone))
       = [ConverseStream req])
   \<and> \<not> (\<exists>req. calls (snd (run sample_utils
        (sample_generator {CONVERSE_STREAM, TOOL_USE, DOCUMENT_CHAT, VISION} (Inr sample_response))
        (PyList [Msg hello_message]) (Some (Callback ''print_chunk'')) (PDict [])
        (PDict [(''tools'', PList [PStr ''search''])]) PNone))
       = [Converse req])"
proof -
  let ?g = "sample_generator {CONVERSE_STREAM, TOOL_USE, DOCUMENT_CHAT, VISION}
              (Inr sample_response)"
  let ?tc = "PDict [(''tools'', PList [PStr ''search''])]"
  have v: "valid_messages (PyList [Msg hello_message])"
    by simp
  have c: "callback_in_effect ?g (Some (Callback ''print_chunk'')) \<noteq> None
           \<and> CONVERSE_STREAM \<in> model_capabilities ?g"
    by (simp add: callback_in_effect_def sample_generator_def)
  have e: "run sample_utils ?g (PyList [Msg hello_message]) (Some (Callback ''print_chunk''))
             (PDict []) ?tc PNone
       = (Inr (make_result {CONVERSE_STREAM, TOOL_USE, DOCUMENT_CHAT, VISION} reply_message
                 [(''trace'', PStr ''streamed trace'')]),
          \<lparr>messages_after = PyList [Msg hello_message],
           warnings = [streaming_tool_use_warning ''some.model-v1''],
           calls = [ConverseStream [(''modelId'', PStr ''some.model-v1''),
                                    (''inferenceConfig'', PDict []),
                                    (''messages'', PList [PInt 1]),
                                    (''toolConfig'', ?tc)]]\<rparr>)"
    by (simp add: run_defs sample_defs fetch_def stream_branch_def dict_get_def)
  show ?thesis
    using dispatch_streaming_iff
            [OF v, of sample_utils ?g "Some (Callback ''print_chunk'')" "PDict []" ?tc PNone]
          v c e
    by blast
qed

section \<open>The response\<close>

text \<open>On the buffered path the metadata is the response of the transport.\<close>

lemma fetch_buffered_metadata:
  assumes "\<not> streaming self cb"
    and "fetch u self cb req = Inr (msg, metadata)"
  shows "converse (client self) req = Inr metadata"
  using assms
  by (auto simp: fetch_def buffered_branch_def split: sum.splits pyval.splits)

text \<open>
  Claim C4. Whenever \<open>run\<close> returns a result, one operation of the transport was invoked,
  the chosen branch produced a message and a metadata mapping from its answer (on the
  buffered path the metadata is the response itself, on the streaming path it is what
  the consumer of the stream accumulated), and the field \<open>guardrail_trace\<close> of the
  result is \<open>None\<close> when \<open>GUARDRAILS\<close> is not in the capability set, whatever the
  metadata holds under \<open>trace\<close>, and is the value of the metadata under \<open>trace\<close> when
  \<open>GUARDRAILS\<close> is in the set.
\<close>

theorem guardrail_trace_gated:
  assumes "fst (run u self messages cb ic tc sp) = Inr r"
  shows "\<exists>call msg metadata.
           calls (snd (run u self messages cb ic tc sp)) = [call]
         \<and> fetch u self (callback_in_effect self cb) (request call) = Inr (msg, metadata)
         \<and> guardrail_trace r =
             (if GUARDRAILS \<in> model_capabilities self then dict_get metadata ''trace''
              else PNone)"
proof (cases "valid_messages messages")
  case False
  with assms show ?thesis
    by (simp add: run_def Let_def)
next
  case True
  let ?req = "build_request u (model self) ic
     (strip_images (model_capabilities self) (the_list messages))
     (usable_tool_config (model_capabilities self) tc)"
  obtain msg metadata
    where f: "fetch u self (callback_in_effect self cb) ?req = Inr (msg, metadata)"
      and r: "r = make_result (model_capabilities self) msg metadata"
    using assms True
    by (cases "fetch u self (callback_in_effect self cb) ?req"
          rule: except_ClientError.cases [of "(model self, _)"])
       (auto simp: run_def Let_def split: sum.splits prod.splits)
  show ?thesis
    using True f r by (auto simp: run_def Let_def make_result_def)
qed

text \<open>
  A model without \<open>GUARDRAILS\<close> and a buffered response that holds a trace: the result
  has none.
\<close>

theorem guardrail_trace_gated_witness:
  "fst (run sample_utils (sample_generator {CONVERSE_STREAM} (Inr sample_response))
         (PyList [Msg hello_message]) None (PDict []) PNone PNone)
     = Inr (make_result {CONVERSE_STREAM} reply_message sample_response)
   \<and> dict_get sample_response ''trace'' = PStr ''buffered trace''
   \<and> guardrail_trace (make_result {CONVERSE_STREAM} reply_message sample_response) = PNone
   \<and> (\<exists>call msg metadata.
           calls (snd (run sample_utils (sample_generator {CONVERSE_STREAM} (Inr sample_response))
              (PyList [Msg hello_message]) None (PDict []) PNone PNone)) = [call]
         \<and> fetch sample_utils (sample_generator {CONVERSE_STREAM} (Inr sample_response))
              (callback_in_effect (sample_generator {CONVERSE_STREAM} (Inr sample_response)) None)
              (request call) = Inr (msg, metadata)
         \<and> guardrail_trace (make_result {CONVERSE_STREAM} reply_message sample_response) =
             (if GUARDRAILS
                   \<in> model_capabilities (sample_generator {CONVERSE_STREAM} (Inr sample_response))
              then dict_get metadata ''trace'' else PNone))"
proof -
  have r: "fst (run sample_utils (sample_generator {CONVERSE_STREAM} (Inr sample_response))
         (PyList [Msg hello_message]) None (PDict []) PNone PNone)
     = Inr (make_result {CONVERSE_STREAM} reply_message sample_response)"
    by (simp add: run_defs sample_defs fetch_def buffered_branch_def dict_get_def)
  have t: "dict_get sample_response ''trace'' = PStr ''buffered trace''"
    by (simp add: sample_defs dict_get_def)
  have g: "guardrail_trace (make_result {CONVERSE_STREAM} reply_message sample_response) = PNone"
    by (simp add: make_result_def)
  show ?thesis
    using guardrail_trace_gated [OF r] r t g by blast
qed

text \<open>
  Claim C6. On the buffered path (the operation invoked is \<open>converse\<close>), when the response
  holds nothing under \<open>output\<close>, or holds under \<open>output\<close> a mapping with nothing under
  \<open>message\<close>, \<open>run\<close> raises the \<open>KeyError\<close> of line 219 or of line 222: the error itself, not
  wrapped into an inference error, and no result.
\<close>

theorem run_malformed_response:
  assumes "calls (snd (run u self messages cb ic tc sp)) = [Converse req]"
    and "converse (client self) req = Inr response"
    and "dict_get response ''output'' = PNone
         \<or> (\<exists>output. dict_get response ''output'' = PDict output
                     \<and> dict_get output ''message'' = PNone)"
  shows "fst (run u self messages cb ic tc sp) =
     Inl (KeyError
       (if dict_get response ''output'' = PNone
        then ''Response does not contain '' @ quoted ''output''
        else ''Response '' @ quoted ''output'' @ '' does not contain '' @ quoted ''message''))"
proof -
  have v: "valid_messages messages"
    using assms(1) by (rule calls_nonempty_valid)
  let ?cb = "callback_in_effect self cb"
  let ?req = "build_request u (model self) ic
      (strip_images (model_capabilities self) (the_list messages))
      (usable_tool_config (model_capabilities self) tc)"
  have c: "calls (snd (run u self messages cb ic tc sp)) =
      [if streaming self ?cb then ConverseStream ?req else Converse ?req]"
    by (simp add: run_valid [OF v] Let_def)
  from c assms(1) have ns: "\<not> streaming self ?cb" and req: "?req = req"
    by (auto split: if_splits)
  have f: "fetch u self ?cb ?req = buffered_branch u (Inr response)"
    using ns req assms(2) by (simp add: fetch_def)
  show ?thesis
    using assms(3) by (auto simp: run_valid [OF v] Let_def f buffered_branch_def)
qed

text \<open>The two malformed responses: no \<open>output\<close>, and an \<open>output\<close> without \<open>message\<close>.\<close>

theorem run_malformed_response_witness:
  "fst (run sample_utils (sample_generator {} (Inr []))
         (PyList [Msg hello_message]) None (PDict []) PNone PNone)
     = Inl (KeyError (''Response does not contain '' @ quoted ''output''))
   \<and> fst (run sample_utils
           (sample_generator {} (Inr [(''output'', PDict [(''role'', PStr ''assistant'')])]))
         (PyList [Msg hello_message]) None (PDict []) PNone PNone)
     = Inl (KeyError (''Response '' @ quoted ''output'' @ '' does not contain ''
                       @ quoted ''message''))"
proof -
  let ?req = "[(''modelId'', PStr ''some.model-v1''), (''inferenceConfig'', PDict []),
               (''messages'', PList [PInt 1])]"
  let ?r2 = "[(''output'', PDict [(''role'', PStr ''assistant'')])]"
  have c1: "calls (snd (run sample_utils (sample_generator {} (Inr []))
               (PyList [Msg hello_message]) None (PDict []) PNone PNone)) = [Converse ?req]"
    by (simp add: run_defs sample_defs)
  have a1: "converse (client (sample_generator {} (Inr []))) ?req = Inr []"
    by (simp add: sample_defs)
  have l1: "dict_get [] ''output'' = PNone
         \<or> (\<exists>output. dict_get [] ''output'' = PDict output
                     \<and> dict_get output ''message'' = PNone)"
    by (simp add: dict_get_def)
  have c2: "calls (snd (run sample_utils (sample_generator {} (Inr ?r2))
               (PyList [Msg hello_message]) None (PDict []) PNone PNone)) = [Converse ?req]"
    by (simp add: run_defs sample_defs)
  have a2: "converse (client (sample_generator {} (Inr ?r2))) ?req = Inr ?r2"
    by (simp add: sample_defs)
  have l2: "dict_get ?r2 ''output'' = PNone
         \<or> (\<exists>output. dict_get ?r2 ''output'' = PDict output
                     \<and> dict_get output ''message'' = PNone)"
    by (simp add: dict_get_def)
  show ?thesis
    using run_malformed_response [OF c1 a1 l1] run_malformed_response [OF c2 a2 l2]
    by (simp add: dict_get_def)
qed

section \<open>Failures of the transport\<close>

text \<open>
  Claim C7 as stated: every failure that an operation of the transport raises is
  re-raised as one inference error. The handler of line 236 names \<open>ClientError\<close> only.
  Here the buffered operation fails to reach the endpoint and raises an exception of
  another class (botocore's \<open>EndpointConnectionError\<close> is not a \<open>ClientError\<close>): \<open>run\<close>
  raises that exception as it is.
\<close>

theorem transport_failure_counterexample:
  "calls (snd (run sample_utils
                 (sample_generator {} (Inl (OtherError ''EndpointConnectionError'')))
                 (PyList [Msg hello_message]) None (PDict []) PNone PNone))
     = [Converse [(''modelId'', PStr ''some.model-v1''), (''inferenceConfig'', PDict []),
                  (''messages'', PList [PInt 1])]]
   \<and> converse (client (sample_generator {} (Inl (OtherError ''EndpointConnectionError''))))
        [(''modelId'', PStr ''some.model-v1''), (''inferenceConfig'', PDict []),
         (''messages'', PList [PInt 1])]
     = Inl (OtherError ''EndpointConnectionError'')
   \<and> fst (run sample_utils
            (sample_generator {} (Inl (OtherError ''EndpointConnectionError'')))
            (PyList [Msg hello_message]) None (PDict []) PNone PNone)
     = Inl (OtherError ''EndpointConnectionError'')"
  by (simp add: run_defs sample_defs fetch_def buffered_branch_def)

text \<open>
  Claim C7, amended. When the operation of the transport that \<open>run\<close> invokes, buffered or
  streaming, raises a \<open>ClientError\<close>, \<open>run\<close> raises one \<open>AmazonBedrockInferenceError\<close> whose
  cause is that \<open>ClientError\<close> and whose message holds the model name and the text of the
  cause. When the operation raises an exception of any other class, \<open>run\<close> raises that
  exception unchanged. In both cases the operation is invoked once, and nothing is
  invoked after it.
\<close>

theorem run_client_error_wrapped:
  assumes "calls (snd (run u self messages cb ic tc sp)) = call # rest"
    and "perform (client self) call = Inl x"
  shows "rest = []
       \<and> (\<forall>e. x = ClientError e \<longrightarrow>
             fst (run u self messages cb ic tc sp) =
               Inl (AmazonBedrockInferenceError
                      (''Could not run inference on Amazon Bedrock model '' @ model self
                         @ '' due to: '' @ e)
                      (ClientError e)))
       \<and> ((\<forall>e. x \<noteq> ClientError e) \<longrightarrow> fst (run u self messages cb ic tc sp) = Inl x)"
proof -
  have v: "valid_messages messages"
    using assms(1) by (rule calls_nonempty_valid)
  let ?cb = "callback_in_effect self cb"
  let ?req = "build_request u (model self) ic
      (strip_images (model_capabilities self) (the_list messages))
      (usable_tool_config (model_capabilities self) tc)"
  have c: "calls (snd (run u self messages cb ic tc sp)) =
      [if streaming self ?cb then ConverseStream ?req else Converse ?req]"
    by (simp add: run_valid [OF v] Let_def)
  from c assms(1) have rest: "rest = []"
    and call: "call = (if streaming self ?cb then ConverseStream ?req else Converse ?req)"
    by auto
  have f: "fetch u self ?cb ?req = Inl x"
    using assms(2) call
    by (simp add: fetch_def stream_branch_def buffered_branch_def split: if_splits)
  have r: "fst (run u self messages cb ic tc sp) = except_ClientError (model self) (Inl x)"
    by (simp add: run_valid [OF v] Let_def f)
  have wrapped: "\<forall>e. x = ClientError e \<longrightarrow>
             fst (run u self messages cb ic tc sp) =
               Inl (AmazonBedrockInferenceError
                      (''Could not run inference on Amazon Bedrock model '' @ model self
                         @ '' due to: '' @ e)
                      (ClientError e))"
    by (simp add: r inference_error_msg_def)
  have unchanged: "(\<forall>e. x \<noteq> ClientError e) \<longrightarrow> fst (run u self messages cb ic tc sp) = Inl x"
    unfolding r by (cases x) simp_all
  from rest wrapped unchanged show ?thesis
    by blast
qed

text \<open>
  A throttled buffered call, wrapped; and a streaming call that cannot reach the
  endpoint, whose exception is raised as it is.
\<close>

theorem run_client_error_wrapped_witness:
  "calls (snd (run sample_utils (sample_generator {} (Inl (ClientError ''ThrottlingException'')))
         (PyList [Msg hello_message]) None (PDict []) PNone PNone))
     = [Converse [(''modelId'', PStr ''some.model-v1''), (''inferenceConfig'', PDict []),
                  (''messages'', PList [PInt 1])]]
   \<and> fst (run sample_utils (sample_generator {} (Inl (ClientError ''ThrottlingException'')))
         (PyList [Msg hello_message]) None (PDict []) PNone PNone)
     = Inl (AmazonBedrockInferenceError
             ''Could not run inference on Amazon Bedrock model some.model-v1 due to: ThrottlingException''
             (ClientError ''ThrottlingException''))
   \<and> calls (snd (run sample_utils failing_stream_generator
         (PyList [Msg hello_message]) (Some (Callback ''print_chunk'')) (PDict []) PNone PNone))
     = [ConverseStream [(''modelId'', PStr ''some.model-v1''), (''inferenceConfig'', PDict []),
                        (''messages'', PList [PInt 1])]]
   \<and> fst (run sample_utils failing_stream_generator
         (PyList [Msg hello_message]) (Some (Callback ''print_chunk'')) (PDict []) PNone PNone)
     = Inl (OtherError ''ReadTimeoutError'')"
proof -
  let ?g = "sample_generator {} (Inl (ClientError ''ThrottlingException''))"
  let ?req = "[(''modelId'', PStr ''some.model-v1''), (''inferenceConfig'', PDict []),
               (''messages'', PList [PInt 1])]"
  have c: "calls (snd (run sample_utils ?g (PyList [Msg hello_message]) None (PDict [])
                          PNone PNone))
     = Converse ?req # []"
    by (simp add: run_defs sample_defs)
  have a: "perform (client ?g) (Converse ?req) = Inl (ClientError ''ThrottlingException'')"
    by (simp add: sample_defs)
  have c': "calls (snd (run sample_utils failing_stream_generator (PyList [Msg hello_message])
                          (Some (Callback ''print_chunk'')) (PDict []) PNone PNone))
     = ConverseStream ?req # []"
    by (simp add: run_defs sample_defs failing_stream_generator_def)
  have a': "perform (client failing_stream_generator) (ConverseStream ?req)
              = Inl (OtherError ''ReadTimeoutError'')"
    by (simp add: failing_stream_generator_def)
  have n: "\<forall>e. OtherError ''ReadTimeoutError'' \<noteq> ClientError e"
    by simp
  show ?thesis
    using run_client_error_wrapped [OF c a] run_client_error_wrapped [OF c' a'] c c' n
    by (simp add: sample_defs)
qed

section \<open>Construction of the generator\<close>

lemma get_model_capabilities_no_match:
  assumes "list_all (\<lambda>(pattern, capabilities). \<not> matches pattern m) registry"
  shows "get_model_capabilities matches registry m = Inl (ValueError (''Unsupported model: '' @ m))"
  using assms by (induction registry) auto

text \<open>
  For a model name that is not empty and that no pattern of the registry matches, the
  constructor fails, and the error it raises is the configuration error of line 140.
\<close>

lemma init_unsupported_model:
  assumes "model p \<noteq> []"
    and "list_all (\<lambda>(pattern, capabilities). \<not> re_match env pattern (model p))
           (MODEL_CAPABILITIES env)"
  shows "\<exists>cause. init env p = Inl (AmazonBedrockConfigurationError connect_msg cause)"
proof -
  have "get_model_capabilities (re_match env) (MODEL_CAPABILITIES env) (model p)
          = Inl (ValueError (''Unsupported model: '' @ model p))"
    using assms(2) by (rule get_model_capabilities_no_match)
  then have "\<exists>cause. init_try env p = Inl cause"
    by (simp add: init_try_def bind_def split: sum.splits)
  then show ?thesis
    using assms(1) by (auto simp: init_def)
qed

text \<open>
  Claim C3. The claim is that a model name which no pattern matches makes the constructor
  fail with the error for an unsupported model, which carries the name. In the source,
  \<open>_get_model_capabilities\<close> raises \<open>ValueError\<close> with the name, inside the \<open>try\<close> block of
  the constructor, whose handler replaces it: with a session that can be created and a
  registry that does not know \<open>mistral.unknown-v9\<close>, the constructor raises the
  configuration error with the message about the connection, and the \<open>ValueError\<close> is
  only its cause.
\<close>

theorem init_unsupported_model_example:
  "list_all (\<lambda>(pattern, capabilities). \<not> re_match sample_env pattern ''mistral.unknown-v9'')
     (MODEL_CAPABILITIES sample_env)
   \<and> init sample_env (sample_parameters ''mistral.unknown-v9'') =
       Inl (AmazonBedrockConfigurationError connect_msg
              (ValueError ''Unsupported model: mistral.unknown-v9''))"
  by (simp add: init_def init_try_def bind_def resolve_secret_def sample_env_def
        sample_parameters_def)

section \<open>Serialisation of the generator\<close>

text \<open>
  \<open>to_dict\<close> reads the model name, the five secrets and the callback of the instance, and
  nothing else: two instances that differ in the inference configuration, the tool
  configuration or the system prompt have the same serialised form.
\<close>

lemma to_dict_forgets:
  "to_dict h (self\<lparr>inference_config := a, tool_config := b, system_prompt := c\<rparr>) = to_dict h self"
  by (simp add: to_dict_def)

text \<open>
  Claim C9. The claim is that \<open>to_dict\<close> followed by \<open>from_dict\<close> preserves every parameter
  of the constructor. Here an instance with an inference configuration, a tool
  configuration and a system prompt is serialised: the mapping holds the type, and
  under \<open>init_parameters\<close> the five secrets (as references to environment variables, or
  \<open>None\<close>), the model name and the callback; it has no entry for the other three
  parameters, and it is the mapping of the instance that has \<open>None\<close> for them. What
  \<open>from_dict\<close> builds from this mapping is therefore the same for both instances.
\<close>

theorem to_dict_forgets_example:
  "to_dict sample_haystack
     ((sample_generator {SYSTEM_PROMPTS} (Inr sample_response))
        \<lparr>inference_config := PDict [(''maxTokens'', PInt 512)],
         tool_config := PDict [(''tools'', PList [PStr ''search''])],
         system_prompt := PList [PDict [(''text'', PStr ''Answer in German'')]]\<rparr>)
   = Inr [(''type'', PStr qualified_class_name),
          (''init_parameters'',
             PDict [(''aws_access_key_id'',
                       PDict [(''type'', PStr ''env_var''),
                              (''env_vars'', PList [PStr ''AWS_ACCESS_KEY_ID'']),
                              (''strict'', PBool False)]),
                    (''aws_secret_access_key'',
                       PDict [(''type'', PStr ''env_var''),
                              (''env_vars'', PList [PStr ''AWS_SECRET_ACCESS_KEY'']),
                              (''strict'', PBool False)]),
                    (''aws_session_token'', PNone),
                    (''aws_region_name'', PNone),
                    (''aws_profile_name'', PNone),
                    (''model'', PStr ''some.model-v1''),
                    (''streaming_callback'', PNone)])]
   \<and> to_dict sample_haystack (sample_generator {SYSTEM_PROMPTS} (Inr sample_response))
     = to_dict sample_haystack
        ((sample_generator {SYSTEM_PROMPTS} (Inr sample_response))
        \<lparr>inference_config := PDict [(''maxTokens'', PInt 512)],
         tool_config := PDict [(''tools'', PList [PStr ''search''])],
         system_prompt := PList [PDict [(''text'', PStr ''Answer in German'')]]\<rparr>)"
  by (simp add: to_dict_def bind_def secret_or_None_def default_to_dict_def
        sample_haystack_def sample_generator_def)

end
